theory Spec2Isabelle
  imports Main
begin

section \<open>Usage tracking of the fashion assistant's API client\<close>

text \<open>
  The development embeds the class \<open>ApiService\<close> of
  \<^verbatim>\<open>frontend/src/helpers/apiService.js\<close>: the usage snapshot kept in
  \<open>localStorage\<close> under the key \<^verbatim>\<open>fashionAgent_usage\<close>, its reconciliation with the
  server's rate-limit status, the reset timer and the query gateway.

  JavaScript is dynamically typed, and the fields of a snapshot read back from storage
  can hold any JSON value, so fields are values of the type \<open>jsval\<close> below and the
  operators of the source (\<^verbatim>\<open>||\<close>, \<^verbatim>\<open>&&\<close>, \<^verbatim>\<open>>=\<close>, \<^verbatim>\<open>+\<close>, \<^verbatim>\<open>-\<close>, \<^verbatim>\<open>isNaN\<close>) are
  written out with their coercions. Numbers are the integers (counters and millisecond
  instants); the number \<^verbatim>\<open>NaN\<close> is \<open>None\<close> where a number is computed and \<open>JNaN\<close> where
  it is stored. JavaScript computes in doubles, so every sum and difference is rounded
  to the nearest double (\<open>double_of\<close> below). Fractions and infinities are outside the
  model.
\<close>

subsection \<open>Double arithmetic on integers\<close>

text \<open>
  A double holds every integer up to \<open>2^53\<close> in magnitude; beyond that it keeps the 53
  leading bits, and a result in between is rounded to the nearest such number, to the one
  with an even last bit on a tie. So \<^verbatim>\<open>9007199254740992 + 1\<close> is
  \<^verbatim>\<open>9007199254740992\<close> again.
\<close>

definition exact_bound :: int where
  "exact_bound = 2 ^ 53"

function ulp_of :: "int \<Rightarrow> int" where
  \<comment> \<open>the distance between neighbouring doubles at the magnitude \<open>m\<close>\<close>
  "ulp_of m = (if m < exact_bound then 1 else 2 * ulp_of (m div 2))"
  by pat_completeness auto
termination
proof (relation "measure nat")
  show "wf (measure nat)" by simp
next
  fix m :: int
  assume "\<not> m < exact_bound"
  then have "0 < m" by (simp add: exact_bound_def)
  then show "(m div 2, m) \<in> measure nat" by simp
qed

declare ulp_of.simps [simp del]

definition round_magnitude :: "int \<Rightarrow> int" where
  "round_magnitude m =
     (let s = ulp_of m; q = m div s; r = m mod s
      in if 2 * r < s then q * s
         else if s < 2 * r then (q + 1) * s
         else if even q then q * s
         else (q + 1) * s)"

definition double_of :: "int \<Rightarrow> int" where
  "double_of n = (if n < 0 then - round_magnitude (- n) else round_magnitude n)"

subsection \<open>JavaScript values and coercions\<close>

text \<open>
  \<open>JObject s\<close> is an array or a plain object as \<^verbatim>\<open>JSON.parse\<close> builds them, kept as
  the string \<open>s\<close> that \<^verbatim>\<open>ToPrimitive\<close> gives for it (\<^verbatim>\<open>""\<close> for \<^verbatim>\<open>[]\<close>,
  \<^verbatim>\<open>"[object Object]"\<close> for \<^verbatim>\<open>{}\<close>): the source never looks inside such a value, it
  tests its truth, compares it with \<^verbatim>\<open>!==\<close>, coerces it and writes it back.
\<close>

datatype jsval =
    JUndefined
  | JNull
  | JBool bool
  | JNum int
  | JNaN
  | JStr string
  | JObject string

text \<open>
  Two built-ins read a string as a number: \<^verbatim>\<open>StringToNumber\<close> (behind \<^verbatim>\<open>isNaN\<close> and the
  arithmetic operators) and \<^verbatim>\<open>Date.parse\<close> (behind \<^verbatim>\<open>new Date(s)\<close>, whose accepted formats
  depend on the engine). They are parameters of the model; \<open>None\<close> is \<^verbatim>\<open>NaN\<close>.
\<close>

record platform =
  string_to_number :: "string \<Rightarrow> int option"
  date_parse :: "string \<Rightarrow> int option"

fun to_number :: "platform \<Rightarrow> jsval \<Rightarrow> int option" where
  "to_number P JUndefined = None"
| "to_number P JNull = Some 0"
| "to_number P (JBool b) = Some (if b then 1 else 0)"
| "to_number P (JNum n) = Some n"
| "to_number P JNaN = None"
| "to_number P (JStr s) = string_to_number P s"
| "to_number P (JObject s) = string_to_number P s"

definition isNaN :: "platform \<Rightarrow> jsval \<Rightarrow> bool" where
  "isNaN P v = (to_number P v = None)"

fun truthy :: "jsval \<Rightarrow> bool" where
  "truthy JUndefined = False"
| "truthy JNull = False"
| "truthy (JBool b) = b"
| "truthy (JNum n) = (n \<noteq> 0)"
| "truthy JNaN = False"
| "truthy (JStr s) = (s \<noteq> [])"
| "truthy (JObject s) = True"

definition js_or :: "jsval \<Rightarrow> jsval \<Rightarrow> jsval" where
  \<comment> \<open>\<^verbatim>\<open>a || b\<close>\<close>
  "js_or a b = (if truthy a then a else b)"

definition num_or :: "int \<Rightarrow> int \<Rightarrow> int" where
  \<comment> \<open>\<^verbatim>\<open>x || d\<close> on a number \<open>x\<close>: zero is falsy\<close>
  "num_or x d = (if x = 0 then d else x)"

fun to_primitive_string :: "jsval \<Rightarrow> string option" where
  "to_primitive_string (JStr s) = Some s"
| "to_primitive_string (JObject s) = Some s"
| "to_primitive_string v = None"

fun code_units_less :: "string \<Rightarrow> string \<Rightarrow> bool" where
  "code_units_less [] [] = False"
| "code_units_less [] (y # ys) = True"
| "code_units_less (x # xs) [] = False"
| "code_units_less (x # xs) (y # ys) =
     (if (of_char x :: nat) < of_char y then True
      else if (of_char y :: nat) < of_char x then False
      else code_units_less xs ys)"

definition js_ge :: "platform \<Rightarrow> jsval \<Rightarrow> jsval \<Rightarrow> bool" where
  \<comment> \<open>\<^verbatim>\<open>a >= b\<close>: two strings compare by code units, anything else as numbers,
      and a comparison with \<^verbatim>\<open>NaN\<close> is false\<close>
  "js_ge P a b =
     (case (to_primitive_string a, to_primitive_string b) of
        (Some s, Some t) \<Rightarrow> \<not> code_units_less s t
      | _ \<Rightarrow> (case (to_number P a, to_number P b) of
                (Some x, Some y) \<Rightarrow> y \<le> x
              | _ \<Rightarrow> False))"

definition js_add_one :: "platform \<Rightarrow> jsval \<Rightarrow> jsval" where
  \<comment> \<open>\<^verbatim>\<open>v + 1\<close>: concatenation when \<open>v\<close> is a string or an object\<close>
  "js_add_one P v =
     (case to_primitive_string v of
        Some s \<Rightarrow> JStr (s @ ''1'')
      | None \<Rightarrow> (case to_number P v of None \<Rightarrow> JNaN | Some n \<Rightarrow> JNum (double_of (n + 1))))"

definition js_sub :: "platform \<Rightarrow> jsval \<Rightarrow> jsval \<Rightarrow> int option" where
  \<comment> \<open>\<^verbatim>\<open>a - b\<close>\<close>
  "js_sub P a b =
     (case (to_number P a, to_number P b) of
        (Some x, Some y) \<Rightarrow> Some (double_of (x - y))
      | _ \<Rightarrow> None)"

definition num_gt :: "int option \<Rightarrow> int \<Rightarrow> bool" where
  \<comment> \<open>\<^verbatim>\<open>x > k\<close> on a number that may be \<^verbatim>\<open>NaN\<close>\<close>
  "num_gt x k = (case x of None \<Rightarrow> False | Some n \<Rightarrow> k < n)"

definition num_le :: "int option \<Rightarrow> int \<Rightarrow> bool" where
  \<comment> \<open>\<^verbatim>\<open>x <= k\<close> on a number that may be \<^verbatim>\<open>NaN\<close>\<close>
  "num_le x k = (case x of None \<Rightarrow> False | Some n \<Rightarrow> n \<le> k)"

subsection \<open>The persisted record\<close>

text \<open>
  The text stored under the key is kept as what \<^verbatim>\<open>JSON.parse\<close> makes of it: the empty
  string, a text that \<^verbatim>\<open>JSON.parse\<close> rejects, or a text it accepts together with the
  parsed document. \<open>DocOther\<close> stands for a boolean, a number, a string or an array at
  top level: reading the properties \<^verbatim>\<open>count\<close>, \<^verbatim>\<open>timestamp\<close>, \<^verbatim>\<open>limit\<close>, \<^verbatim>\<open>serverSync\<close>
  and \<^verbatim>\<open>serverResetTime\<close> of those gives \<^verbatim>\<open>undefined\<close>. The store itself is
  \<open>None\<close> when the key is absent (\<^verbatim>\<open>getItem\<close> returns \<^verbatim>\<open>null\<close>).
\<close>

datatype json_doc = DocNull | DocOther | DocObject "(string \<times> jsval) list"

datatype item = Text_empty | Text_invalid | Text_json json_doc

type_synonym localStorage = "item option"

datatype js_error = SyntaxError | TypeError | Error string

fun JSON_parse :: "item \<Rightarrow> js_error + json_doc" where
  "JSON_parse Text_empty = Inl SyntaxError"
| "JSON_parse Text_invalid = Inl SyntaxError"
| "JSON_parse (Text_json d) = Inr d"

fun get_prop :: "json_doc \<Rightarrow> string \<Rightarrow> js_error + jsval" where
  "get_prop DocNull k = Inl TypeError"
| "get_prop DocOther k = Inr JUndefined"
| "get_prop (DocObject ps) k = Inr (case map_of ps k of None \<Rightarrow> JUndefined | Some v \<Rightarrow> v)"

fun stored_text :: "localStorage \<Rightarrow> item option" where
  \<comment> \<open>\<^verbatim>\<open>if (stored)\<close>: the text when it is truthy; \<^verbatim>\<open>null\<close> and the empty string
      are falsy\<close>
  "stored_text None = None"
| "stored_text (Some Text_empty) = None"
| "stored_text (Some stored) = Some stored"

record usage =
  count :: jsval
  timestamp :: jsval
  limit :: jsval
  serverSync :: jsval
  serverResetTime :: jsval

text \<open>
  \<^verbatim>\<open>JSON.stringify\<close> of a usage object: a property that is \<^verbatim>\<open>undefined\<close> is left
  out and \<^verbatim>\<open>NaN\<close> is written as \<^verbatim>\<open>null\<close>. A property the object literal does not
  have is \<open>JUndefined\<close> in the record, which reads and serialises the same. The order of
  the keys in the text is not observed by the code.
\<close>

fun json_of :: "jsval \<Rightarrow> jsval" where
  "json_of JNaN = JNull"
| "json_of v = v"

definition JSON_stringify :: "usage \<Rightarrow> item" where
  "JSON_stringify u =
     Text_json (DocObject
       (map (\<lambda>(k, v). (k, json_of v))
         (filter (\<lambda>(k, v). v \<noteq> JUndefined)
           [(''count'', count u), (''timestamp'', timestamp u), (''limit'', limit u),
            (''serverSync'', serverSync u), (''serverResetTime'', serverResetTime u)])))"

subsection \<open>Initialisation, reset and load\<close>

definition resetUsage :: "int \<Rightarrow> localStorage" where
  \<comment> \<open>the argument is the reading of \<^verbatim>\<open>Date.now()\<close>; the result is the new store\<close>
  "resetUsage now =
     Some (JSON_stringify
       \<lparr>count = JNum 0, timestamp = JNum now, limit = JNum 20,
        serverSync = JUndefined, serverResetTime = JUndefined\<rparr>)"

definition initializeUsageTracking ::
  "platform \<Rightarrow> int \<Rightarrow> int \<Rightarrow> localStorage \<Rightarrow> js_error + localStorage" where
  \<comment> \<open>\<open>now\<close> is the reading at entry, \<open>now_reset\<close> the one inside \<open>resetUsage\<close>;
      nothing catches what \<^verbatim>\<open>JSON.parse\<close> or the property read throws\<close>
  "initializeUsageTracking P now now_reset st =
     (case stored_text st of
        Some stored \<Rightarrow>
          (case JSON_parse stored of
             Inl e \<Rightarrow> Inl e
           | Inr parsed \<Rightarrow>
               (case get_prop parsed ''timestamp'' of
                  Inl e \<Rightarrow> Inl e
                | Inr ts \<Rightarrow>
                    if num_gt (js_sub P (JNum now) ts) 18000000
                    then Inr (resetUsage now_reset)
                    else Inr st))
      | None \<Rightarrow> Inr (resetUsage now_reset))"

definition default_usage :: "int \<Rightarrow> usage" where
  \<comment> \<open>the object of the last line of \<open>getUsageSync\<close>\<close>
  "default_usage now =
     \<lparr>count = JNum 0, timestamp = JNum now, limit = JNum 20,
      serverSync = JBool False, serverResetTime = JUndefined\<rparr>"

definition validated :: "platform \<Rightarrow> int \<Rightarrow> json_doc \<Rightarrow> js_error + usage" where
  \<comment> \<open>the object built inside the \<^verbatim>\<open>try\<close> of \<open>getUsageSync\<close>\<close>
  "validated P now parsed =
     (case get_prop parsed ''count'' of
        Inl e \<Rightarrow> Inl e
      | Inr c \<Rightarrow>
     (case get_prop parsed ''timestamp'' of
        Inl e \<Rightarrow> Inl e
      | Inr t \<Rightarrow>
     (case get_prop parsed ''limit'' of
        Inl e \<Rightarrow> Inl e
      | Inr l \<Rightarrow>
     (case get_prop parsed ''serverSync'' of
        Inl e \<Rightarrow> Inl e
      | Inr s \<Rightarrow>
     (case get_prop parsed ''serverResetTime'' of
        Inl e \<Rightarrow> Inl e
      | Inr r \<Rightarrow>
          Inr \<lparr>count = (if isNaN P c then JNum 0 else c),
               timestamp = (if isNaN P t then JNum now else t),
               limit = (if isNaN P l then JNum 20 else l),
               serverSync = js_or s (JBool False),
               serverResetTime = js_or r JNull\<rparr>)))))"

definition getUsageSync :: "platform \<Rightarrow> int \<Rightarrow> localStorage \<Rightarrow> usage" where
  \<comment> \<open>an error inside the \<^verbatim>\<open>try\<close> is logged and the default object returned\<close>
  "getUsageSync P now st =
     (case stored_text st of
        Some stored \<Rightarrow>
          (case JSON_parse stored of
             Inl e \<Rightarrow> default_usage now
           | Inr parsed \<Rightarrow>
               (case validated P now parsed of
                  Inl e \<Rightarrow> default_usage now
                | Inr u \<Rightarrow> u))
      | None \<Rightarrow> default_usage now)"

subsection \<open>Reconciliation with the server\<close>

text \<open>
  The body of \<^verbatim>\<open>GET /api/v1/rate-limit-status\<close> as the backend sends it. The probe
  \<open>getRateLimitStatus\<close> catches every failure and returns \<^verbatim>\<open>null\<close>, here \<open>None\<close>.
\<close>

record server_status =
  queries_used :: int
  queries_remaining :: int
  reset_time :: string

definition getUsage ::
  "platform \<Rightarrow> server_status option \<Rightarrow> int \<Rightarrow> localStorage \<Rightarrow> usage \<times> localStorage" where
  \<comment> \<open>\<open>probe\<close> is what \<open>getRateLimitStatus\<close> returned, \<open>now\<close> the reading of the clock\<close>
  "getUsage P probe now st =
     (case probe of
        Some serverStatus \<Rightarrow>
          (let maxQueries = double_of (num_or (queries_used serverStatus) 0
                                       + num_or (queries_remaining serverStatus) 20);
               serverUsage =
                 \<lparr>count = JNum (num_or (queries_used serverStatus) 0),
                  timestamp = JNum now,
                  limit = JNum maxQueries,
                  serverSync = JBool True,
                  serverResetTime = JStr (reset_time serverStatus)\<rparr>
           in (serverUsage, Some (JSON_stringify serverUsage)))
      | None \<Rightarrow>
          (let offlineUsage =
                 (getUsageSync P now st)\<lparr>serverSync := JBool False, serverResetTime := JNull\<rparr>
           in (offlineUsage, Some (JSON_stringify offlineUsage))))"

definition hasReachedLimitSync :: "platform \<Rightarrow> int \<Rightarrow> localStorage \<Rightarrow> bool" where
  "hasReachedLimitSync P now st =
     (let u = getUsageSync P now st in js_ge P (count u) (limit u))"

definition hasReachedLimit ::
  "platform \<Rightarrow> server_status option \<Rightarrow> int \<Rightarrow> localStorage \<Rightarrow> bool \<times> localStorage" where
  "hasReachedLimit P probe now st =
     (let (u, st') = getUsage P probe now st in (js_ge P (count u) (limit u), st'))"

definition incrementUsage ::
  "platform \<Rightarrow> server_status option \<Rightarrow> int \<Rightarrow> localStorage \<Rightarrow> usage \<times> localStorage" where
  "incrementUsage P probe now st =
     (let (u, st') = getUsage P probe now st;
          u' = u\<lparr>count := js_add_one P (count u)\<rparr>
      in (u', Some (JSON_stringify u')))"

subsection \<open>Time until reset\<close>

definition time_clip :: "int \<Rightarrow> int option" where
  \<comment> \<open>a time value beyond 8.64e15 ms is an invalid date\<close>
  "time_clip n = (if \<bar>n\<bar> \<le> 8640000000000000 then Some n else None)"

definition date_time :: "platform \<Rightarrow> jsval \<Rightarrow> int option" where
  \<comment> \<open>\<^verbatim>\<open>new Date(v).getTime()\<close>: a string (or what an object converts to) is parsed,
      any other value is taken as a number of milliseconds\<close>
  "date_time P v =
     (case to_primitive_string v of
        Some s \<Rightarrow> date_parse P s
      | None \<Rightarrow> (case to_number P v of None \<Rightarrow> None | Some n \<Rightarrow> time_clip n))"

definition has_server_reset :: "usage \<Rightarrow> bool" where
  \<comment> \<open>the guard of the server branch\<close>
  "has_server_reset u =
     (truthy (serverResetTime u) \<and> truthy (serverSync u)
      \<and> serverResetTime u \<noteq> JStr ''N/A''
      \<and> serverResetTime u \<noteq> JStr ''Window expired - resets on next query'')"

definition server_instant :: "platform \<Rightarrow> usage \<Rightarrow> int option" where
  \<comment> \<open>the valid reset instant of the server branch, if that branch returns\<close>
  "server_instant P u =
     (if has_server_reset u then date_time P (serverResetTime u) else None)"

definition local_remaining :: "platform \<Rightarrow> usage \<Rightarrow> int \<Rightarrow> int option" where
  \<comment> \<open>\<^verbatim>\<open>fiveHours - (Date.now() - usage.timestamp)\<close>\<close>
  "local_remaining P u now =
     (case js_sub P (JNum now) (timestamp u) of
        None \<Rightarrow> None
      | Some timeElapsed \<Rightarrow> Some (double_of (5 * 60 * 60 * 1000 - timeElapsed)))"

definition untilReset ::
  "platform \<Rightarrow> usage \<Rightarrow> int \<Rightarrow> int \<Rightarrow> localStorage \<Rightarrow> int option \<times> localStorage" where
  \<comment> \<open>the statements that follow the load of \<open>usage\<close>, the same text in
      \<open>getTimeUntilResetSync\<close> and \<open>getTimeUntilReset\<close>; \<open>now\<close> is the reading of the
      branch taken, \<open>now_reset\<close> the one inside \<open>resetUsage\<close>\<close>
  "untilReset P u now now_reset st =
     (case server_instant P u of
        Some resetTime \<Rightarrow> (Some (max 0 (double_of (resetTime - now))), st)
      | None \<Rightarrow>
          (let timeRemaining = local_remaining P u now in
           if num_le timeRemaining 0 then (Some 0, resetUsage now_reset)
           else (timeRemaining, st)))"

definition getTimeUntilResetSync ::
  "platform \<Rightarrow> int \<Rightarrow> int \<Rightarrow> int \<Rightarrow> localStorage \<Rightarrow> int option \<times> localStorage" where
  \<comment> \<open>\<open>now_load\<close> is the reading inside \<open>getUsageSync\<close>\<close>
  "getTimeUntilResetSync P now_load now now_reset st =
     untilReset P (getUsageSync P now_load st) now now_reset st"

type_synonym probe_in = "server_status option \<times> int"

type_synonym timer_in = "probe_in \<times> int \<times> int"

definition getTimeUntilReset ::
  "platform \<Rightarrow> timer_in \<Rightarrow> localStorage \<Rightarrow> int option \<times> localStorage" where
  \<comment> \<open>the input is the probe's result and the clock reading of \<open>getUsage\<close>, then
      the readings of the branch taken and of \<open>resetUsage\<close>\<close>
  "getTimeUntilReset P ti st =
     (case ti of ((probe, now_load), now, now_reset) \<Rightarrow>
        (let (u, st') = getUsage P probe now_load st
         in untilReset P u now now_reset st'))"

subsection \<open>Formatting\<close>

definition digit_char :: "nat \<Rightarrow> char" where
  "digit_char d = char_of (of_char CHR ''0'' + d)"

function decimal_digits :: "nat \<Rightarrow> string \<Rightarrow> string" where
  "decimal_digits n acc =
     (if n < 10 then digit_char n # acc
      else decimal_digits (n div 10) (digit_char (n mod 10) # acc))"
  by pat_completeness auto
termination
  by (relation "measure fst") auto

declare decimal_digits.simps [simp del]

definition number_to_string :: "int \<Rightarrow> string" where
  \<comment> \<open>what a template literal prints for an integer: its decimal digits (for a
      magnitude below \<open>10^21\<close>, where the exponent notation starts)\<close>
  "number_to_string i =
     (if i < 0 then CHR ''-'' # decimal_digits (nat (- i)) [] else decimal_digits (nat i) [])"

definition js_rem :: "int \<Rightarrow> int \<Rightarrow> int" where
  \<comment> \<open>\<^verbatim>\<open>a % m\<close> for a positive \<open>m\<close>: the sign of the dividend\<close>
  "js_rem a m = (if 0 \<le> a then a mod m else - ((- a) mod m))"

definition format_time :: "int option \<Rightarrow> string" where
  \<comment> \<open>the statements that follow the call of the timer, the same text in
      \<open>formatTimeUntilResetSync\<close> and \<open>formatTimeUntilReset\<close>; the quotients are the
      exact ones, which \<^verbatim>\<open>Math.floor\<close> of the double quotient gives for a time below
      \<open>2^53\<close> ms\<close>
  "format_time timeRemaining =
     (case timeRemaining of
        None \<Rightarrow> ''Available now''
      | Some t \<Rightarrow>
          if t = 0 then ''Available now''
          else
            (let hours = t div (60 * 60 * 1000);
                 minutes = js_rem t (60 * 60 * 1000) div (60 * 1000)
             in if 0 < hours
                then number_to_string hours @ ''h '' @ number_to_string minutes @ ''m''
                else number_to_string minutes @ ''m''))"

definition formatTimeUntilResetSync ::
  "platform \<Rightarrow> int \<Rightarrow> int \<Rightarrow> int \<Rightarrow> localStorage \<Rightarrow> string \<times> localStorage" where
  "formatTimeUntilResetSync P now_load now now_reset st =
     (let (timeRemaining, st') = getTimeUntilResetSync P now_load now now_reset st
      in (format_time timeRemaining, st'))"

definition formatTimeUntilReset ::
  "platform \<Rightarrow> timer_in \<Rightarrow> localStorage \<Rightarrow> string \<times> localStorage" where
  "formatTimeUntilReset P ti st =
     (let (timeRemaining, st') = getTimeUntilReset P ti st
      in (format_time timeRemaining, st'))"

subsection \<open>The query gateway\<close>

text \<open>
  What \<^verbatim>\<open>POST /api/v1/query\<close> can come back with: the transport fails or the body
  is not JSON (\<open>fetch\<close> or \<open>response.json()\<close> rejects), or a status and a body arrive.
  Of the body the code reads \<^verbatim>\<open>detail\<close> (a string, or an object that may have a
  \<^verbatim>\<open>message\<close>) and \<^verbatim>\<open>rate_limit\<close>.
\<close>

datatype detail = DetailAbsent | DetailString string | DetailObject "string option"

record rate_limit_info =
  remaining :: int
  info_reset_time :: string

record response_body =
  detail :: detail
  rate_limit :: "rate_limit_info option"

datatype http_result = Rejected js_error | Responded int response_body

definition response_ok :: "int \<Rightarrow> bool" where
  "response_ok status = (200 \<le> status \<and> status \<le> 299)"

definition apiRequest :: "http_result \<Rightarrow> js_error + response_body" where
  \<comment> \<open>the argument is the outcome of the \<open>fetch\<close>; on success the caller below starts
      \<open>updateUsageFromServer\<close> when \<^verbatim>\<open>data.rate_limit\<close> is there\<close>
  "apiRequest r =
     (case r of
        Rejected e \<Rightarrow> Inl e
      | Responded status data \<Rightarrow>
          if status = 429 then
            Inl (Error (case detail data of
                          DetailObject (Some m) \<Rightarrow>
                            if m \<noteq> [] then m
                            else ''Rate limit exceeded. Please try again later.''
                        | _ \<Rightarrow> ''Rate limit exceeded. Please try again later.''))
          else if \<not> response_ok status then
            Inl (Error (case detail data of
                          DetailString s \<Rightarrow>
                            if s \<noteq> [] then s
                            else ''HTTP error! status: '' @ number_to_string status
                        | DetailObject m \<Rightarrow> ''[object Object]''
                        | DetailAbsent \<Rightarrow> ''HTTP error! status: '' @ number_to_string status))
          else Inr data)"

definition updateUsageFromServer ::
  "platform \<Rightarrow> rate_limit_info \<Rightarrow> probe_in \<Rightarrow> localStorage \<Rightarrow> localStorage" where
  "updateUsageFromServer P rateLimitInfo pin st =
     (let (u, st') = getUsage P (fst pin) (snd pin) st;
          queriesUsed = js_sub P (limit u) (JNum (remaining rateLimitInfo));
          updatedUsage =
            u\<lparr>count := (case queriesUsed of None \<Rightarrow> JNaN | Some n \<Rightarrow> JNum n),
              serverResetTime := JStr (info_reset_time rateLimitInfo)\<rparr>
      in Some (JSON_stringify updatedUsage))"

text \<open>
  \<open>apiRequest\<close> calls \<open>updateUsageFromServer\<close> without \<^verbatim>\<open>await\<close>: the call issues its
  status probe at once and finishes in a task of its own, when that probe answers. The
  event loop runs the rest of that task (from the probe's answer to the write of
  \<open>updatedUsage\<close>) without interruption, either before the answer to the probe of
  \<open>incrementUsage\<close>, or between that one and the answer to the probe of the final
  \<open>formatTimeUntilReset\<close>, or after \<open>query\<close> has returned. Which of the three happens
  is an input of a run.
\<close>

datatype update_order = Before_increment | Before_summary | After_return

datatype request = GET_status | POST_query string

record query_in =
  check_in :: probe_in
  blocked_in :: timer_in
  post_result :: http_result
  update_in :: probe_in
  update_at :: update_order
  increment_in :: probe_in
  summary_in :: timer_in

record usage_summary =
  summary_count :: jsval
  summary_limit :: jsval
  summary_remaining :: "int option"
  summary_resetTime :: string

record query_out =
  result :: "js_error + response_body \<times> usage_summary"
  store_at_return :: localStorage
  store_settled :: localStorage
  requests :: "request list"

definition query :: "platform \<Rightarrow> query_in \<Rightarrow> string \<Rightarrow> localStorage \<Rightarrow> query_out" where
  \<comment> \<open>\<open>store_at_return\<close> is the store when the promise of \<open>query\<close> settles,
      \<open>store_settled\<close> the store once the update task has finished too, \<open>requests\<close> the
      requests issued in between, in order\<close>
  "query P I message st =
     (let (reached, st1) = hasReachedLimit P (fst (check_in I)) (snd (check_in I)) st in
      if reached then
        (let (resetTime, st2) = formatTimeUntilReset P (blocked_in I) st1
         in \<lparr>result = Inl (Error
               (''Rate limit reached. You can make 20 queries every 5 hours. Next reset: ''
                 @ resetTime)),
             store_at_return = st2, store_settled = st2,
             requests = [GET_status, GET_status]\<rparr>)
      else
        (case apiRequest (post_result I) of
           Inl e \<Rightarrow>
             \<lparr>result = Inl e, store_at_return = st1, store_settled = st1,
              requests = [GET_status, POST_query message]\<rparr>
         | Inr response \<Rightarrow>
             (let update = (\<lambda>s. case rate_limit response of
                                   None \<Rightarrow> s
                                 | Some info \<Rightarrow> updateUsageFromServer P info (update_in I) s);
                  st2 = (if update_at I = Before_increment then update st1 else st1);
                  (u, st3) = incrementUsage P (fst (increment_in I)) (snd (increment_in I)) st2;
                  st4 = (if update_at I = Before_summary then update st3 else st3);
                  (resetTime, st5) = formatTimeUntilReset P (summary_in I) st4;
                  st6 = (if update_at I = After_return then update st5 else st5)
              in \<lparr>result = Inr (response,
                    \<lparr>summary_count = count u, summary_limit = limit u,
                     summary_remaining = js_sub P (limit u) (count u),
                     summary_resetTime = resetTime\<rparr>),
                  store_at_return = st5, store_settled = st6,
                  requests = [GET_status, POST_query message]
                    @ (if rate_limit response = None then [] else [GET_status])
                    @ [GET_status, GET_status]\<rparr>)))"

subsection \<open>A platform to run the model on\<close>

text \<open>
  The theorems below hold for every platform. Where a run of the model needs one, this
  one is taken: it reads the empty string as 0, a string of decimal digits as its value
  and any other string as \<^verbatim>\<open>NaN\<close>, and it accepts no string as a date. The runs below
  never reach either function: their records hold numbers, booleans and \<^verbatim>\<open>null\<close>, and
  the only reset time in them is the sentinel \<^verbatim>\<open>"N/A"\<close>, which the timers do not parse.
\<close>

fun digits_value :: "string \<Rightarrow> int \<Rightarrow> int option" where
  "digits_value [] acc = Some acc"
| "digits_value (c # cs) acc =
     (if 48 \<le> (of_char c :: nat) \<and> (of_char c :: nat) \<le> 57
      then digits_value cs (10 * acc + int (of_char c) - 48)
      else None)"

definition digits_platform :: platform where
  "digits_platform =
     \<lparr>string_to_number = (\<lambda>s. digits_value s 0), date_parse = (\<lambda>s. None)\<rparr>"

subsection \<open>Observing the store\<close>

definition stored_prop :: "localStorage \<Rightarrow> string \<Rightarrow> js_error + jsval" where
  \<comment> \<open>\<^verbatim>\<open>JSON.parse(localStorage.getItem('fashionAgent_usage'))[k]\<close>; \<^verbatim>\<open>JSON.parse(null)\<close>
      is \<^verbatim>\<open>null\<close>, whose properties cannot be read\<close>
  "stored_prop st k =
     (case st of
        None \<Rightarrow> Inl TypeError
      | Some stored \<Rightarrow>
          (case JSON_parse stored of Inl e \<Rightarrow> Inl e | Inr parsed \<Rightarrow> get_prop parsed k))"

fun positive :: "jsval \<Rightarrow> bool" where
  "positive (JNum n) = (0 < n)"
| "positive v = False"

definition limit_ok :: "platform \<Rightarrow> localStorage \<Rightarrow> bool" where
  \<comment> \<open>the stored record has no readable \<^verbatim>\<open>limit\<close>, or one that \<open>isNaN\<close> rejects,
      or a positive number\<close>
  "limit_ok P st =
     (case stored_prop st ''limit'' of
        Inl e \<Rightarrow> True
      | Inr v \<Rightarrow> isNaN P v \<or> positive v)"

definition persisted_limit_positive :: "localStorage \<Rightarrow> bool" where
  \<comment> \<open>the stored record has a \<^verbatim>\<open>limit\<close> that is a positive number\<close>
  "persisted_limit_positive st =
     (case stored_prop st ''limit'' of
        Inl e \<Rightarrow> False
      | Inr v \<Rightarrow> positive v)"

fun probe_ok :: "server_status option \<Rightarrow> bool" where
  \<comment> \<open>a status, when there is one, has counters that are not negative\<close>
  "probe_ok None = True"
| "probe_ok (Some s) = (0 \<le> queries_used s \<and> 0 \<le> queries_remaining s)"

section \<open>Properties\<close>

subsection \<open>Rounding\<close>

text \<open>
  Rounding leaves the integers up to \<open>2^53\<close> in magnitude as they are, and it never
  crosses one of them.
\<close>

lemma exact_bound_half: "exact_bound = 2 * 2 ^ 52"
  by (simp add: exact_bound_def)

lemma exact_bound_pos: "0 < exact_bound"
  by (simp add: exact_bound_def)

lemma ulp_of_small: "m < exact_bound \<Longrightarrow> ulp_of m = 1"
  by (subst ulp_of.simps) simp

lemma ulp_of_step: "\<not> m < exact_bound \<Longrightarrow> ulp_of m = 2 * ulp_of (m div 2)"
  by (subst ulp_of.simps) simp

lemma ulp_of_pos: "0 < ulp_of m"
  by (induction m rule: ulp_of.induct) (subst ulp_of.simps, simp)

lemma round_magnitude_small: "m < exact_bound \<Longrightarrow> round_magnitude m = m"
  by (simp add: round_magnitude_def ulp_of_small)

lemma round_magnitude_floor: "(m div ulp_of m) * ulp_of m \<le> round_magnitude m"
  using ulp_of_pos [of m] by (simp add: round_magnitude_def Let_def distrib_right)

lemma half_le: "2 * h \<le> m \<Longrightarrow> 2 * h \<le> (m div 2) * (2::int)"
  by presburger

lemma floor_large: "exact_bound \<le> m \<Longrightarrow> exact_bound \<le> (m div ulp_of m) * ulp_of m"
proof (induction m rule: ulp_of.induct)
  case (1 m)
  from "1.prems" have big: "\<not> m < exact_bound" by simp
  show ?case
  proof (cases "m div 2 < exact_bound")
    case True
    then have u: "ulp_of m = 2"
      using big by (simp add: ulp_of_step ulp_of_small)
    have "exact_bound \<le> (m div 2) * 2"
      using "1.prems" unfolding exact_bound_half by (rule half_le)
    then show ?thesis by (simp add: u)
  next
    case False
    then have ih: "exact_bound \<le> (m div 2 div ulp_of (m div 2)) * ulp_of (m div 2)"
      using "1.IH" [OF big] by simp
    have u: "ulp_of m = 2 * ulp_of (m div 2)"
      using big by (rule ulp_of_step)
    have d: "m div ulp_of m = m div 2 div ulp_of (m div 2)"
      using zdiv_zmult2_eq [of "ulp_of (m div 2)" m 2] ulp_of_pos [of "m div 2"]
      by (simp add: u)
    have "(m div ulp_of m) * ulp_of m
            = 2 * ((m div 2 div ulp_of (m div 2)) * ulp_of (m div 2))"
      by (simp only: d) (simp add: u)
    with ih exact_bound_pos show ?thesis by simp
  qed
qed

lemma round_magnitude_large: "exact_bound \<le> m \<Longrightarrow> exact_bound \<le> round_magnitude m"
  using floor_large [of m] round_magnitude_floor [of m] by simp

lemma round_magnitude_exact: "m \<le> exact_bound \<Longrightarrow> round_magnitude m = m"
proof (cases "m < exact_bound")
  case True
  then show ?thesis by (rule round_magnitude_small)
next
  case False
  assume "m \<le> exact_bound"
  with False have m: "m = exact_bound" by simp
  have h: "(2::int) ^ 52 < exact_bound" by (simp add: exact_bound_def)
  have "ulp_of exact_bound = 2 * ulp_of (exact_bound div 2)"
    by (rule ulp_of_step) simp
  also have "exact_bound div 2 = 2 ^ 52" by (simp add: exact_bound_half)
  also have "ulp_of (2 ^ 52) = 1" using h by (rule ulp_of_small)
  finally have u: "ulp_of exact_bound = 2" by simp
  show ?thesis
    by (simp add: round_magnitude_def m u) (simp add: exact_bound_half)
qed

lemma round_magnitude_ge: "a \<le> exact_bound \<Longrightarrow> a \<le> m \<Longrightarrow> a \<le> round_magnitude m"
proof (cases "m \<le> exact_bound")
  case True
  assume "a \<le> m"
  with True show ?thesis by (simp add: round_magnitude_exact)
next
  case False
  assume "a \<le> exact_bound"
  moreover from False have "exact_bound \<le> round_magnitude m"
    by (intro round_magnitude_large) simp
  ultimately show ?thesis by simp
qed

lemma double_of_exact: "\<bar>n\<bar> \<le> exact_bound \<Longrightarrow> double_of n = n"
  by (simp add: double_of_def round_magnitude_exact)

lemma double_of_minus: "double_of (- n) = - double_of n"
  by (cases "n = 0") (auto simp: double_of_def round_magnitude_small exact_bound_pos)

lemma double_of_ge:
  assumes "a \<le> x" and "\<bar>a\<bar> \<le> exact_bound"
  shows "a \<le> double_of x"
proof (cases "x < 0")
  case True
  with assms have "\<bar>x\<bar> \<le> exact_bound" by simp
  then show ?thesis using assms(1) by (simp add: double_of_exact)
next
  case False
  have "a \<le> round_magnitude x"
    using assms by (intro round_magnitude_ge) simp_all
  then show ?thesis using False by (simp add: double_of_def)
qed

lemma double_of_le:
  assumes "x \<le> a" and "\<bar>a\<bar> \<le> exact_bound"
  shows "double_of x \<le> a"
  using double_of_ge [of "- a" "- x"] assms by (simp add: double_of_minus)

lemma double_of_small: "\<bar>n\<bar> \<le> 9007199254740992 \<Longrightarrow> double_of n = n"
  by (rule double_of_exact) (simp add: exact_bound_def)

subsection \<open>Reading back what was written\<close>

lemma stringify_props:
  "\<exists>ps. JSON_stringify u = Text_json (DocObject ps)
     \<and> get_prop (DocObject ps) ''count'' = Inr (json_of (count u))
     \<and> get_prop (DocObject ps) ''timestamp'' = Inr (json_of (timestamp u))
     \<and> get_prop (DocObject ps) ''limit'' = Inr (json_of (limit u))
     \<and> get_prop (DocObject ps) ''serverSync'' = Inr (json_of (serverSync u))
     \<and> get_prop (DocObject ps) ''serverResetTime'' = Inr (json_of (serverResetTime u))"
  by (simp add: JSON_stringify_def)

lemma getUsageSync_absent: "getUsageSync P now None = default_usage now"
  by (simp add: getUsageSync_def)

lemma getUsageSync_empty: "getUsageSync P now (Some Text_empty) = default_usage now"
  by (simp add: getUsageSync_def)

lemma getUsageSync_invalid: "getUsageSync P now (Some Text_invalid) = default_usage now"
  by (simp add: getUsageSync_def)

lemma getUsageSync_null: "getUsageSync P now (Some (Text_json DocNull)) = default_usage now"
  by (simp add: getUsageSync_def validated_def)

lemma getUsageSync_other:
  "getUsageSync P now (Some (Text_json DocOther)) =
     (default_usage now)\<lparr>serverResetTime := JNull\<rparr>"
  by (simp add: getUsageSync_def validated_def isNaN_def js_or_def default_usage_def)

lemma getUsageSync_object:
  "getUsageSync P now (Some (Text_json (DocObject ps))) =
     (let prop = (\<lambda>k. case map_of ps k of None \<Rightarrow> JUndefined | Some v \<Rightarrow> v) in
      \<lparr>count = (if isNaN P (prop ''count'') then JNum 0 else prop ''count''),
       timestamp = (if isNaN P (prop ''timestamp'') then JNum now else prop ''timestamp''),
       limit = (if isNaN P (prop ''limit'') then JNum 20 else prop ''limit''),
       serverSync = js_or (prop ''serverSync'') (JBool False),
       serverResetTime = js_or (prop ''serverResetTime'') JNull\<rparr>)"
  by (simp add: getUsageSync_def validated_def Let_def)

lemma getUsage_server:
  "getUsage P (Some s) now st =
     (let u = \<lparr>count = JNum (queries_used s), timestamp = JNum now,
                limit = JNum (double_of (queries_used s + num_or (queries_remaining s) 20)),
                serverSync = JBool True, serverResetTime = JStr (reset_time s)\<rparr>
      in (u, Some (JSON_stringify u)))"
  by (simp add: getUsage_def Let_def num_or_def)

lemma getUsage_offline:
  "getUsage P None now st =
     (let u = (getUsageSync P now st)\<lparr>serverSync := JBool False, serverResetTime := JNull\<rparr>
      in (u, Some (JSON_stringify u)))"
  by (simp add: getUsage_def)

lemma not_isNaN_json_of: "\<not> isNaN P v \<Longrightarrow> json_of v = v"
  by (cases v) (simp_all add: isNaN_def)

lemma stored_prop_stringify:
  "stored_prop (Some (JSON_stringify u)) ''count'' = Inr (json_of (count u))"
  "stored_prop (Some (JSON_stringify u)) ''timestamp'' = Inr (json_of (timestamp u))"
  "stored_prop (Some (JSON_stringify u)) ''limit'' = Inr (json_of (limit u))"
  "stored_prop (Some (JSON_stringify u)) ''serverSync'' = Inr (json_of (serverSync u))"
  "stored_prop (Some (JSON_stringify u)) ''serverResetTime'' = Inr (json_of (serverResetTime u))"
  by (simp_all add: stored_prop_def JSON_stringify_def)

lemma resetUsage_props:
  "stored_prop (resetUsage now) ''count'' = Inr (JNum 0)"
  "stored_prop (resetUsage now) ''timestamp'' = Inr (JNum now)"
  "stored_prop (resetUsage now) ''limit'' = Inr (JNum 20)"
  by (simp_all add: resetUsage_def stored_prop_stringify)

text \<open>What \<open>getUsageSync\<close> makes of a stored property that can be read.\<close>

lemma getUsageSync_fields:
  assumes "stored_prop st k = Inr v"
  shows "k = ''count'' \<Longrightarrow> count (getUsageSync P now st) = (if isNaN P v then JNum 0 else v)"
    and "k = ''timestamp'' \<Longrightarrow>
           timestamp (getUsageSync P now st) = (if isNaN P v then JNum now else v)"
    and "k = ''limit'' \<Longrightarrow> limit (getUsageSync P now st) = (if isNaN P v then JNum 20 else v)"
proof -
  from assms obtain stored d where st: "st = Some stored" and js: "JSON_parse stored = Inr d"
    and gp: "get_prop d k = Inr v"
    by (auto simp: stored_prop_def split: option.splits sum.splits)
  from js have stored: "stored = Text_json d" by (cases stored) simp_all
  from gp have "d \<noteq> DocNull" by auto
  then consider "d = DocOther" | ps where "d = DocObject ps" by (cases d) auto
  then have
    "(k = ''count'' \<longrightarrow> count (getUsageSync P now st) = (if isNaN P v then JNum 0 else v))
     \<and> (k = ''timestamp'' \<longrightarrow>
            timestamp (getUsageSync P now st) = (if isNaN P v then JNum now else v))
     \<and> (k = ''limit'' \<longrightarrow> limit (getUsageSync P now st) = (if isNaN P v then JNum 20 else v))"
  proof cases
    case 1
    with gp have "v = JUndefined" by simp
    then show ?thesis
      by (simp add: st stored 1 getUsageSync_other default_usage_def isNaN_def)
  next
    case 2
    with gp show ?thesis
      by (auto simp: st stored getUsageSync_object Let_def)
  qed
  then show "k = ''count'' \<Longrightarrow> count (getUsageSync P now st) = (if isNaN P v then JNum 0 else v)"
    and "k = ''timestamp'' \<Longrightarrow>
           timestamp (getUsageSync P now st) = (if isNaN P v then JNum now else v)"
    and "k = ''limit'' \<Longrightarrow> limit (getUsageSync P now st) = (if isNaN P v then JNum 20 else v)"
    by blast+
qed

text \<open>A store whose properties cannot be read loads as the default object.\<close>

lemma getUsageSync_unreadable:
  assumes "stored_prop st k = Inl e"
  shows "getUsageSync P now st = default_usage now"
proof (cases st)
  case None
  then show ?thesis by (simp add: getUsageSync_absent)
next
  case (Some stored)
  show ?thesis
  proof (cases stored)
    case Text_empty
    then show ?thesis by (simp add: Some getUsageSync_empty)
  next
    case Text_invalid
    then show ?thesis by (simp add: Some getUsageSync_invalid)
  next
    case (Text_json d)
    with assms Some have "d = DocNull" by (cases d) (simp_all add: stored_prop_def)
    then show ?thesis by (simp add: Some Text_json getUsageSync_null)
  qed
qed

text \<open>The timestamp of a loaded or reconciled snapshot always coerces to a number.\<close>

lemma getUsageSync_timestamp_number:
  "to_number P (timestamp (getUsageSync P now st)) \<noteq> None"
proof (cases "stored_prop st ''timestamp''")
  case (Inl e)
  then show ?thesis by (simp add: getUsageSync_unreadable default_usage_def)
next
  case (Inr v)
  then show ?thesis by (simp add: getUsageSync_fields(2) isNaN_def)
qed

lemma getUsage_timestamp_number:
  "to_number P (timestamp (fst (getUsage P probe now st))) \<noteq> None"
  using getUsageSync_timestamp_number [of P now st]
  by (cases probe) (simp_all add: getUsage_server getUsage_offline Let_def)

subsection \<open>The common body of the two timers\<close>

lemma untilReset_nonneg:
  assumes "to_number P (timestamp u) \<noteq> None"
  shows "\<exists>t. fst (untilReset P u now now_reset st) = Some t \<and> 0 \<le> t"
proof (cases "server_instant P u")
  case (Some resetTime)
  then show ?thesis by (simp add: untilReset_def)
next
  case None
  from assms obtain ts where "to_number P (timestamp u) = Some ts" by blast
  then have "local_remaining P u now = Some (double_of (18000000 - double_of (now - ts)))"
    by (simp add: local_remaining_def js_sub_def)
  with None show ?thesis
    by (simp add: untilReset_def Let_def num_le_def)
qed

lemma untilReset_expired:
  assumes "server_instant P u = None" and "num_le (local_remaining P u now) 0"
  shows "untilReset P u now now_reset st = (Some 0, resetUsage now_reset)"
  using assms by (simp add: untilReset_def Let_def)

subsection \<open>What the reconciliation returns is what it stores\<close>

lemma getUsage_snd:
  "snd (getUsage P probe now st) = Some (JSON_stringify (fst (getUsage P probe now st)))"
  by (cases probe) (simp_all add: getUsage_server getUsage_offline Let_def)

lemma incrementUsage_fst:
  "fst (incrementUsage P probe now st) =
     (fst (getUsage P probe now st))
       \<lparr>count := js_add_one P (count (fst (getUsage P probe now st)))\<rparr>"
  by (cases "getUsage P probe now st") (simp add: incrementUsage_def Let_def)

lemma incrementUsage_snd:
  "snd (incrementUsage P probe now st) =
     Some (JSON_stringify (fst (incrementUsage P probe now st)))"
  by (cases "getUsage P probe now st") (simp add: incrementUsage_def Let_def)


subsection \<open>Reconciliation with a server status\<close>

lemma getUsage_three_seventeen:
  "fst (getUsage P (Some \<lparr>queries_used = 3, queries_remaining = 17, reset_time = r\<rparr>) now st) =
     \<lparr>count = JNum 3, timestamp = JNum now, limit = JNum 20,
      serverSync = JBool True, serverResetTime = JStr r\<rparr>"
  by (simp add: getUsage_server Let_def num_or_def double_of_small)

lemma getUsage_server_nonzero_remaining:
  "queries_remaining s \<noteq> 0 \<Longrightarrow>
     limit (fst (getUsage P (Some s) now st))
       = JNum (double_of (queries_used s + queries_remaining s))"
  by (simp add: getUsage_server Let_def num_or_def)

text \<open>
  Claim C1. With a server status present, the reconciled limit is meant to be
  \<open>queries_used + queries_remaining\<close>. The source adds
  \<^verbatim>\<open>(serverStatus.queries_remaining || 20)\<close>, and 0 is falsy: a status with 20 queries used
  and 0 remaining gives the limit 40 instead of 20, the snapshot is persisted with it, and
  the limit check does not block.
\<close>

theorem getUsage_zero_remaining_limit:
  "getUsage P (Some \<lparr>queries_used = 20, queries_remaining = 0, reset_time = r\<rparr>) now st =
     (\<lparr>count = JNum 20, timestamp = JNum now, limit = JNum 40,
       serverSync = JBool True, serverResetTime = JStr r\<rparr>,
      Some (JSON_stringify
        \<lparr>count = JNum 20, timestamp = JNum now, limit = JNum 40,
         serverSync = JBool True, serverResetTime = JStr r\<rparr>))
   \<and> fst (hasReachedLimit P
         (Some \<lparr>queries_used = 20, queries_remaining = 0, reset_time = r\<rparr>) now st) = False"
  by (simp add: hasReachedLimit_def getUsage_server Let_def num_or_def js_ge_def
        double_of_small)

subsection \<open>Bad persisted data\<close>

text \<open>
  Claim C4. Reading the persisted record is meant never to throw. \<open>getUsageSync\<close> wraps
  \<^verbatim>\<open>JSON.parse\<close> in a \<^verbatim>\<open>try\<close>; \<open>initializeUsageTracking\<close>, which the constructor
  calls, does not: on a stored text that is not JSON it throws a \<^verbatim>\<open>SyntaxError\<close>, and
  on the stored text \<^verbatim>\<open>null\<close> the read of \<^verbatim>\<open>usage.timestamp\<close> throws a
  \<^verbatim>\<open>TypeError\<close>.
\<close>

theorem initializeUsageTracking_throws:
  "initializeUsageTracking P now now_reset (Some Text_invalid) = Inl SyntaxError
   \<and> initializeUsageTracking P now now_reset (Some (Text_json DocNull)) = Inl TypeError"
  by (simp add: initializeUsageTracking_def)

text \<open>
  Claim C5. A record with non-numeric fields is meant to load as \<open>count = 0\<close>,
  \<open>limit = 20\<close>. The validation is \<^verbatim>\<open>isNaN(parsed.count) ? 0 : parsed.count\<close>, and
  \<^verbatim>\<open>isNaN(null)\<close> is false because \<^verbatim>\<open>null\<close> coerces to 0: the stored text
  \<^verbatim>\<open>{"count":null,"timestamp":null,"limit":null}\<close> loads with all three fields
  \<^verbatim>\<open>null\<close>.
\<close>

theorem getUsageSync_null_fields:
  "getUsageSync P now
     (Some (Text_json (DocObject
        [(''count'', JNull), (''timestamp'', JNull), (''limit'', JNull)]))) =
     \<lparr>count = JNull, timestamp = JNull, limit = JNull,
      serverSync = JBool False, serverResetTime = JNull\<rparr>"
  by (simp add: getUsageSync_object isNaN_def js_or_def)

subsection \<open>Increment\<close>

text \<open>
  \<open>incrementUsage\<close> reconciles first. When its probe succeeds, the snapshot it returns
  and persists has the server's \<open>queries_used\<close> plus 1 as count, and the store it
  started from has no effect on either the snapshot or the store it leaves.
\<close>

lemma incrementUsage_server_run:
  "incrementUsage P (Some s) now st =
     (\<lparr>count = JNum (double_of (queries_used s + 1)), timestamp = JNum now,
       limit = JNum (double_of (queries_used s + num_or (queries_remaining s) 20)),
       serverSync = JBool True, serverResetTime = JStr (reset_time s)\<rparr>,
      Some (JSON_stringify
        \<lparr>count = JNum (double_of (queries_used s + 1)), timestamp = JNum now,
         limit = JNum (double_of (queries_used s + num_or (queries_remaining s) 20)),
         serverSync = JBool True, serverResetTime = JStr (reset_time s)\<rparr>))"
  by (simp add: incrementUsage_def getUsage_server Let_def js_add_one_def)

lemma incrementUsage_server_any_store:
  "incrementUsage P (Some s) now st = incrementUsage P (Some s) now st'"
  by (simp only: incrementUsage_server_run)

text \<open>
  Claim C10. With a successful probe, \<open>incrementUsage\<close> is meant to persist and return the
  server's \<open>queries_used\<close> plus 1 as count and the limit rebuilt from the two server
  counters, their sum as the comment in \<open>getUsage\<close> says. The count is right, the limit
  is not when \<open>queries_remaining\<close> is 0, by the same \<^verbatim>\<open>|| 20\<close> as in claim C1: a
  status with 19 queries used and 0 remaining gives count 20 and limit 39 instead of 19,
  in the snapshot and in the record written.
\<close>

theorem incrementUsage_zero_remaining:
  "incrementUsage P (Some \<lparr>queries_used = 19, queries_remaining = 0, reset_time = r\<rparr>) now st =
     (\<lparr>count = JNum 20, timestamp = JNum now, limit = JNum 39,
       serverSync = JBool True, serverResetTime = JStr r\<rparr>,
      Some (JSON_stringify
        \<lparr>count = JNum 20, timestamp = JNum now, limit = JNum 39,
         serverSync = JBool True, serverResetTime = JStr r\<rparr>))
   \<and> stored_prop (snd (incrementUsage P
         (Some \<lparr>queries_used = 19, queries_remaining = 0, reset_time = r\<rparr>) now st)) ''count''
       = Inr (JNum 20)
   \<and> stored_prop (snd (incrementUsage P
         (Some \<lparr>queries_used = 19, queries_remaining = 0, reset_time = r\<rparr>) now st)) ''limit''
       = Inr (JNum 39)"
  by (simp add: incrementUsage_server_run num_or_def double_of_small stored_prop_stringify)

subsection \<open>Reconciliation without a server status\<close>

text \<open>
  Claim C8. When the probe fails, \<open>getUsage\<close> returns the count and the limit of the
  persisted snapshot unchanged, with \<open>serverSync\<close> false and \<open>serverResetTime\<close>
  \<^verbatim>\<open>null\<close>, and the record it writes reads back the same four values. A persisted
  snapshot is a record whose count and limit pass the \<open>isNaN\<close> validation of the load.
\<close>

theorem getUsage_offline_frame:
  assumes "stored_prop st ''count'' = Inr c" and "\<not> isNaN P c"
      and "stored_prop st ''limit'' = Inr l" and "\<not> isNaN P l"
  shows "count (fst (getUsage P None now st)) = c
       \<and> limit (fst (getUsage P None now st)) = l
       \<and> serverSync (fst (getUsage P None now st)) = JBool False
       \<and> serverResetTime (fst (getUsage P None now st)) = JNull
       \<and> stored_prop (snd (getUsage P None now st)) ''count'' = Inr c
       \<and> stored_prop (snd (getUsage P None now st)) ''limit'' = Inr l
       \<and> stored_prop (snd (getUsage P None now st)) ''serverSync'' = Inr (JBool False)
       \<and> stored_prop (snd (getUsage P None now st)) ''serverResetTime'' = Inr JNull"
proof -
  have c: "count (getUsageSync P now st) = c"
    using assms(1,2) by (simp add: getUsageSync_fields(1))
  have l: "limit (getUsageSync P now st) = l"
    using assms(3,4) by (simp add: getUsageSync_fields(3))
  from assms(2,4) have "json_of c = c" and "json_of l = l"
    by (simp_all add: not_isNaN_json_of)
  with c l show ?thesis
    by (simp add: getUsage_offline Let_def stored_prop_stringify)
qed

theorem getUsage_offline_frame_witness:
  "stored_prop (Some (Text_json (DocObject
       [(''count'', JNum 7), (''timestamp'', JNum 0), (''limit'', JNum 20),
        (''serverSync'', JBool True), (''serverResetTime'', JStr ''N/A'')]))) ''count'' = Inr (JNum 7)
   \<and> \<not> isNaN digits_platform (JNum 7)
   \<and> stored_prop (Some (Text_json (DocObject
       [(''count'', JNum 7), (''timestamp'', JNum 0), (''limit'', JNum 20),
        (''serverSync'', JBool True), (''serverResetTime'', JStr ''N/A'')]))) ''limit'' = Inr (JNum 20)
   \<and> \<not> isNaN digits_platform (JNum 20)
   \<and> count (fst (getUsage digits_platform None 1000 (Some (Text_json (DocObject
       [(''count'', JNum 7), (''timestamp'', JNum 0), (''limit'', JNum 20),
        (''serverSync'', JBool True), (''serverResetTime'', JStr ''N/A'')]))))) = JNum 7
   \<and> limit (fst (getUsage digits_platform None 1000 (Some (Text_json (DocObject
       [(''count'', JNum 7), (''timestamp'', JNum 0), (''limit'', JNum 20),
        (''serverSync'', JBool True), (''serverResetTime'', JStr ''N/A'')]))))) = JNum 20
   \<and> serverSync (fst (getUsage digits_platform None 1000 (Some (Text_json (DocObject
       [(''count'', JNum 7), (''timestamp'', JNum 0), (''limit'', JNum 20),
        (''serverSync'', JBool True), (''serverResetTime'', JStr ''N/A'')]))))) = JBool False"
proof -
  let ?st = "Some (Text_json (DocObject
       [(''count'', JNum 7), (''timestamp'', JNum 0), (''limit'', JNum 20),
        (''serverSync'', JBool True), (''serverResetTime'', JStr ''N/A'')]))"
  have h1: "stored_prop ?st ''count'' = Inr (JNum 7)" by (simp add: stored_prop_def)
  have h2: "\<not> isNaN digits_platform (JNum 7)" by (simp add: isNaN_def)
  have h3: "stored_prop ?st ''limit'' = Inr (JNum 20)" by (simp add: stored_prop_def)
  have h4: "\<not> isNaN digits_platform (JNum 20)" by (simp add: isNaN_def)
  from getUsage_offline_frame [OF h1 h2 h3 h4, of 1000] h1 h2 h3 h4 show ?thesis by blast
qed

text \<open>
  Claim C2, as stated: with no server data, the reconciliation of a snapshot older than
  five hours returns count 0 and the current time as timestamp. It does not: \<open>getUsage\<close>
  has no expiry check. A snapshot with count 7 and timestamp 0, reconciled offline at
  20,000,000 ms, comes back with count 7 and timestamp 0.
\<close>

theorem getUsage_offline_expired_keeps:
  "getUsage digits_platform None 20000000
     (Some (Text_json (DocObject
        [(''count'', JNum 7), (''timestamp'', JNum 0), (''limit'', JNum 20)]))) =
     (\<lparr>count = JNum 7, timestamp = JNum 0, limit = JNum 20,
       serverSync = JBool False, serverResetTime = JNull\<rparr>,
      Some (Text_json (DocObject
        [(''count'', JNum 7), (''timestamp'', JNum 0), (''limit'', JNum 20),
         (''serverSync'', JBool False), (''serverResetTime'', JNull)])))
   \<and> (18000000 :: int) < 20000000 - 0
   \<and> count (fst (getUsage digits_platform None 20000000
     (Some (Text_json (DocObject
        [(''count'', JNum 7), (''timestamp'', JNum 0), (''limit'', JNum 20)]))))) \<noteq> JNum 0
   \<and> timestamp (fst (getUsage digits_platform None 20000000
     (Some (Text_json (DocObject
        [(''count'', JNum 7), (''timestamp'', JNum 0), (''limit'', JNum 20)]))))) \<noteq> JNum 20000000"
  by (simp add: getUsage_offline Let_def getUsageSync_object isNaN_def js_or_def
        JSON_stringify_def)

text \<open>
  Claim C2, amended. For a persisted snapshot whose timestamp is more than 18,000,000 ms
  before the clock reading, and with no server data: \<open>getUsage\<close> returns the persisted
  timestamp and the loaded count as they are; the reset is made by
  \<open>initializeUsageTracking\<close> when the service is constructed, and by
  \<open>getTimeUntilReset\<close>, which then returns 0. In both the record written has count 0
  and the clock reading of \<open>resetUsage\<close> as timestamp.
\<close>

theorem expired_window_reset:
  assumes "stored_prop st ''timestamp'' = Inr ts" and "to_number P ts = Some n"
      and "18000000 < now - n"
  shows "timestamp (fst (getUsage P None now_load st)) = ts
       \<and> count (fst (getUsage P None now_load st)) = count (getUsageSync P now_load st)
       \<and> initializeUsageTracking P now now_reset st = Inr (resetUsage now_reset)
       \<and> getTimeUntilReset P ((None, now_load), now, now_reset) st
           = (Some 0, resetUsage now_reset)
       \<and> stored_prop (resetUsage now_reset) ''count'' = Inr (JNum 0)
       \<and> stored_prop (resetUsage now_reset) ''timestamp'' = Inr (JNum now_reset)"
proof -
  define u where "u = fst (getUsage P None now_load st)"
  have nn: "\<not> isNaN P ts" using assms(2) by (simp add: isNaN_def)
  have t: "timestamp u = ts"
    using assms(1) nn by (simp add: u_def getUsage_offline Let_def getUsageSync_fields(2))
  have c: "count u = count (getUsageSync P now_load st)"
    by (simp add: u_def getUsage_offline Let_def)
  have "serverSync u = JBool False"
    by (simp add: u_def getUsage_offline Let_def)
  then have si: "server_instant P u = None"
    by (simp add: server_instant_def has_server_reset_def)
  have elapsed: "18000001 \<le> double_of (now - n)"
    using assms(3) by (intro double_of_ge) (simp_all add: exact_bound_def)
  then have "double_of (18000000 - double_of (now - n)) \<le> - 1"
    by (intro double_of_le) (simp_all add: exact_bound_def)
  then have lr: "num_le (local_remaining P u now) 0"
    using assms(2) by (simp add: local_remaining_def js_sub_def t num_le_def)
  have timer: "getTimeUntilReset P ((None, now_load), now, now_reset) st
           = (Some 0, resetUsage now_reset)"
    using untilReset_expired [OF si lr]
    by (cases "getUsage P None now_load st") (simp add: getTimeUntilReset_def u_def)
  from assms(1) obtain stored d where st: "st = Some stored"
    and js: "JSON_parse stored = Inr d" and gp: "get_prop d ''timestamp'' = Inr ts"
    by (auto simp: stored_prop_def split: option.splits sum.splits)
  from js have "stored_text st = Some stored"
    by (cases stored) (simp_all add: st)
  then have init: "initializeUsageTracking P now now_reset st = Inr (resetUsage now_reset)"
    using js gp assms(2) elapsed
    by (simp add: initializeUsageTracking_def js_sub_def num_gt_def)
  from t c init timer show ?thesis
    by (simp add: u_def resetUsage_props)
qed

theorem expired_window_reset_witness:
  "stored_prop (Some (Text_json (DocObject
        [(''count'', JNum 7), (''timestamp'', JNum 0), (''limit'', JNum 20)]))) ''timestamp''
     = Inr (JNum 0)
   \<and> to_number digits_platform (JNum 0) = Some 0
   \<and> (18000000 :: int) < 20000000 - 0
   \<and> initializeUsageTracking digits_platform 20000000 20000001
       (Some (Text_json (DocObject
        [(''count'', JNum 7), (''timestamp'', JNum 0), (''limit'', JNum 20)])))
     = Inr (resetUsage 20000001)
   \<and> getTimeUntilReset digits_platform ((None, 19999999), 20000000, 20000001)
       (Some (Text_json (DocObject
        [(''count'', JNum 7), (''timestamp'', JNum 0), (''limit'', JNum 20)])))
     = (Some 0, resetUsage 20000001)
   \<and> stored_prop (resetUsage 20000001) ''count'' = Inr (JNum 0)
   \<and> stored_prop (resetUsage 20000001) ''timestamp'' = Inr (JNum 20000001)"
proof -
  let ?st = "Some (Text_json (DocObject
        [(''count'', JNum 7), (''timestamp'', JNum 0), (''limit'', JNum 20)]))"
  have h1: "stored_prop ?st ''timestamp'' = Inr (JNum 0)" by (simp add: stored_prop_def)
  have h2: "to_number digits_platform (JNum 0) = Some 0" by simp
  have h3: "(18000000 :: int) < 20000000 - 0" by simp
  from expired_window_reset [OF h1 h2 h3, of 19999999 20000001] h1 h2 h3
  show ?thesis by blast
qed

subsection \<open>The timers\<close>

text \<open>
  Claim C7. Both timers return a number, never \<^verbatim>\<open>NaN\<close>, that is at least 0, for
  every platform, store, probe result and clock readings, whichever branch is taken.
  When the server branch does not return and the local remaining time is at most 0,
  they return 0 and leave the record that \<open>resetUsage\<close> writes: count 0 and the
  clock reading of the reset as timestamp.
\<close>

theorem timeUntilReset_nonneg:
  "(\<exists>t. fst (getTimeUntilReset P ((probe, now_load), now, now_reset) st) = Some t \<and> 0 \<le> t)
   \<and> (\<exists>t. fst (getTimeUntilResetSync P now_load now now_reset st) = Some t \<and> 0 \<le> t)
   \<and> (server_instant P (fst (getUsage P probe now_load st)) = None
        \<and> num_le (local_remaining P (fst (getUsage P probe now_load st)) now) 0
      \<longrightarrow> getTimeUntilReset P ((probe, now_load), now, now_reset) st
            = (Some 0, resetUsage now_reset))
   \<and> (server_instant P (getUsageSync P now_load st) = None
        \<and> num_le (local_remaining P (getUsageSync P now_load st) now) 0
      \<longrightarrow> getTimeUntilResetSync P now_load now now_reset st
            = (Some 0, resetUsage now_reset))
   \<and> stored_prop (resetUsage now_reset) ''count'' = Inr (JNum 0)
   \<and> stored_prop (resetUsage now_reset) ''timestamp'' = Inr (JNum now_reset)"
proof -
  obtain u st' where g: "getUsage P probe now_load st = (u, st')"
    by (cases "getUsage P probe now_load st")
  have ts: "to_number P (timestamp u) \<noteq> None"
    using getUsage_timestamp_number [of P probe now_load st] by (simp add: g)
  have a: "\<exists>t. fst (getTimeUntilReset P ((probe, now_load), now, now_reset) st) = Some t \<and> 0 \<le> t"
    using untilReset_nonneg [OF ts] by (simp add: getTimeUntilReset_def g)
  have b: "\<exists>t. fst (getTimeUntilResetSync P now_load now now_reset st) = Some t \<and> 0 \<le> t"
    unfolding getTimeUntilResetSync_def
    by (rule untilReset_nonneg) (rule getUsageSync_timestamp_number)
  have c: "server_instant P (fst (getUsage P probe now_load st)) = None
        \<and> num_le (local_remaining P (fst (getUsage P probe now_load st)) now) 0
      \<longrightarrow> getTimeUntilReset P ((probe, now_load), now, now_reset) st
            = (Some 0, resetUsage now_reset)"
    by (simp add: getTimeUntilReset_def g untilReset_expired)
  have d: "server_instant P (getUsageSync P now_load st) = None
        \<and> num_le (local_remaining P (getUsageSync P now_load st) now) 0
      \<longrightarrow> getTimeUntilResetSync P now_load now now_reset st
            = (Some 0, resetUsage now_reset)"
    by (simp add: getTimeUntilResetSync_def untilReset_expired)
  from a b c d show ?thesis by (simp add: resetUsage_props)
qed

theorem timeUntilReset_nonneg_witness:
  "server_instant digits_platform (fst (getUsage digits_platform None 20000000
       (Some (Text_json (DocObject
          [(''count'', JNum 7), (''timestamp'', JNum 0), (''limit'', JNum 20)]))))) = None
   \<and> num_le (local_remaining digits_platform (fst (getUsage digits_platform None 20000000
       (Some (Text_json (DocObject
          [(''count'', JNum 7), (''timestamp'', JNum 0), (''limit'', JNum 20)]))))) 20000001) 0
   \<and> getTimeUntilReset digits_platform ((None, 20000000), 20000001, 20000002)
       (Some (Text_json (DocObject
          [(''count'', JNum 7), (''timestamp'', JNum 0), (''limit'', JNum 20)])))
     = (Some 0, resetUsage 20000002)
   \<and> server_instant digits_platform (getUsageSync digits_platform 20000000
       (Some (Text_json (DocObject
          [(''count'', JNum 7), (''timestamp'', JNum 0), (''limit'', JNum 20)])))) = None
   \<and> num_le (local_remaining digits_platform (getUsageSync digits_platform 20000000
       (Some (Text_json (DocObject
          [(''count'', JNum 7), (''timestamp'', JNum 0), (''limit'', JNum 20)])))) 20000001) 0
   \<and> getTimeUntilResetSync digits_platform 20000000 20000001 20000002
       (Some (Text_json (DocObject
          [(''count'', JNum 7), (''timestamp'', JNum 0), (''limit'', JNum 20)])))
     = (Some 0, resetUsage 20000002)"
proof -
  let ?st = "Some (Text_json (DocObject
          [(''count'', JNum 7), (''timestamp'', JNum 0), (''limit'', JNum 20)]))"
  have u: "getUsageSync digits_platform 20000000 ?st =
      \<lparr>count = JNum 7, timestamp = JNum 0, limit = JNum 20,
       serverSync = JBool False, serverResetTime = JNull\<rparr>"
    by (simp add: getUsageSync_object isNaN_def js_or_def)
  have h1: "server_instant digits_platform (fst (getUsage digits_platform None 20000000 ?st)) = None"
    by (simp add: getUsage_offline Let_def u server_instant_def has_server_reset_def)
  have h2: "num_le (local_remaining digits_platform
               (fst (getUsage digits_platform None 20000000 ?st)) 20000001) 0"
    by (simp add: getUsage_offline Let_def u local_remaining_def js_sub_def num_le_def
          double_of_small)
  have h3: "server_instant digits_platform (getUsageSync digits_platform 20000000 ?st) = None"
    by (simp add: u server_instant_def has_server_reset_def)
  have h4: "num_le (local_remaining digits_platform
               (getUsageSync digits_platform 20000000 ?st) 20000001) 0"
    by (simp add: u local_remaining_def js_sub_def num_le_def double_of_small)
  from timeUntilReset_nonneg [of digits_platform None 20000000 20000001 20000002 ?st]
    h1 h2 h3 h4
  show ?thesis by blast
qed

subsection \<open>The sign of the limit\<close>

lemma positive_json_of: "positive v \<Longrightarrow> json_of v = v"
  by (cases v) simp_all

lemma limit_ok_stringify: "positive (limit u) \<Longrightarrow> limit_ok P (Some (JSON_stringify u))"
  by (simp add: limit_ok_def stored_prop_stringify positive_json_of)

lemma getUsageSync_limit_positive:
  assumes "limit_ok P st"
  shows "positive (limit (getUsageSync P now st))"
proof (cases "stored_prop st ''limit''")
  case (Inl e)
  then show ?thesis by (simp add: getUsageSync_unreadable default_usage_def)
next
  case (Inr v)
  with assms have "isNaN P v \<or> positive v" by (simp add: limit_ok_def)
  with Inr show ?thesis by (auto simp: getUsageSync_fields(3))
qed

lemma getUsage_limit_positive:
  assumes "limit_ok P st" and "probe_ok probe"
  shows "positive (limit (fst (getUsage P probe now st)))"
proof (cases probe)
  case None
  then show ?thesis
    using getUsageSync_limit_positive [OF assms(1), of now]
    by (simp add: getUsage_offline Let_def)
next
  case (Some s)
  with assms(2) have "1 \<le> queries_used s + num_or (queries_remaining s) 20"
    by (simp add: num_or_def)
  then have "1 \<le> double_of (queries_used s + num_or (queries_remaining s) 20)"
    by (intro double_of_ge) (simp_all add: exact_bound_def)
  with Some show ?thesis by (simp add: getUsage_server Let_def)
qed

text \<open>
  Claim C6, as stated: every snapshot that an operation produces has a positive limit,
  for every persisted record. Nothing in the source checks the sign: a persisted record
  with limit 0 loads with limit 0, and the offline reconciliation writes it back.
\<close>

theorem getUsageSync_zero_limit:
  "limit (getUsageSync digits_platform 1000
     (Some (Text_json (DocObject
        [(''count'', JNum 0), (''timestamp'', JNum 0), (''limit'', JNum 0)])))) = JNum 0
   \<and> \<not> positive (limit (getUsageSync digits_platform 1000
     (Some (Text_json (DocObject
        [(''count'', JNum 0), (''timestamp'', JNum 0), (''limit'', JNum 0)])))))
   \<and> stored_prop (snd (getUsage digits_platform None 1000
     (Some (Text_json (DocObject
        [(''count'', JNum 0), (''timestamp'', JNum 0), (''limit'', JNum 0)]))))) ''limit''
       = Inr (JNum 0)"
  by (simp add: getUsage_offline Let_def getUsageSync_object isNaN_def js_or_def
        stored_prop_stringify)

lemma persisted_limit_positive_stringify:
  "positive (limit u) \<Longrightarrow> persisted_limit_positive (Some (JSON_stringify u))"
  by (simp add: persisted_limit_positive_def stored_prop_stringify positive_json_of)

lemma untilReset_store:
  "snd (untilReset P u now now_reset st) = st
   \<or> snd (untilReset P u now now_reset st) = resetUsage now_reset"
  by (simp add: untilReset_def Let_def split: option.splits)

lemma getTimeUntilReset_eq:
  "getTimeUntilReset P ((probe, now_load), now, now_reset) st =
     untilReset P (fst (getUsage P probe now_load st)) now now_reset
       (snd (getUsage P probe now_load st))"
  by (simp add: getTimeUntilReset_def split_def Let_def)

lemma resetUsage_limit_positive: "persisted_limit_positive (resetUsage now)"
  by (simp add: persisted_limit_positive_def resetUsage_props)

text \<open>
  Claim C6, amended. If the limit of the persisted record is a positive number, or is
  unreadable or rejected by \<open>isNaN\<close> (the load then takes 20), and the counters of the
  server status, when there is one, are not negative, then the snapshot that the load,
  the reconciliation and the increment return has a positive limit, and so has the record
  that the reconciliation, the increment, the timer and the update from a response leave
  in the store. A reset always writes the limit 20.
\<close>

theorem limit_positive_preserved:
  assumes "limit_ok P st" and "probe_ok probe"
  shows "positive (limit (getUsageSync P now st))
       \<and> positive (limit (fst (getUsage P probe now st)))
       \<and> persisted_limit_positive (snd (getUsage P probe now st))
       \<and> positive (limit (fst (incrementUsage P probe now st)))
       \<and> persisted_limit_positive (snd (incrementUsage P probe now st))
       \<and> persisted_limit_positive
             (snd (getTimeUntilReset P ((probe, now), now_calc, now_reset) st))
       \<and> persisted_limit_positive (updateUsageFromServer P info (probe, now) st)
       \<and> stored_prop (resetUsage now) ''limit'' = Inr (JNum 20)
       \<and> positive (limit (getUsageSync P now' (resetUsage now)))"
proof -
  have a: "positive (limit (getUsageSync P now st))"
    using assms(1) by (rule getUsageSync_limit_positive)
  have b: "positive (limit (fst (getUsage P probe now st)))"
    using assms by (rule getUsage_limit_positive)
  have c: "persisted_limit_positive (snd (getUsage P probe now st))"
    using b by (simp add: getUsage_snd persisted_limit_positive_stringify)
  have d: "positive (limit (fst (incrementUsage P probe now st)))"
    using b by (simp add: incrementUsage_fst)
  have e: "persisted_limit_positive (snd (incrementUsage P probe now st))"
    using d by (simp add: incrementUsage_snd persisted_limit_positive_stringify)
  have f: "persisted_limit_positive
             (snd (getTimeUntilReset P ((probe, now), now_calc, now_reset) st))"
    using c untilReset_store [of P "fst (getUsage P probe now st)" now_calc now_reset
        "snd (getUsage P probe now st)"]
    by (auto simp: getTimeUntilReset_eq resetUsage_limit_positive)
  have g: "persisted_limit_positive (updateUsageFromServer P info (probe, now) st)"
    using b by (simp add: updateUsageFromServer_def split_def Let_def
        persisted_limit_positive_stringify)
  have h: "stored_prop (resetUsage now) ''limit'' = Inr (JNum 20)"
    by (rule resetUsage_props)
  have "limit_ok P (resetUsage now)"
    by (simp add: limit_ok_def resetUsage_props)
  then have i: "positive (limit (getUsageSync P now' (resetUsage now)))"
    by (rule getUsageSync_limit_positive)
  from a b c d e f g h i show ?thesis by (intro conjI)
qed

theorem limit_positive_preserved_witness:
  "limit_ok digits_platform (Some (Text_json (DocObject
        [(''count'', JNum 7), (''timestamp'', JNum 0), (''limit'', JNum 20)])))
   \<and> probe_ok (Some \<lparr>queries_used = 20, queries_remaining = 0, reset_time = ''N/A''\<rparr>)
   \<and> positive (limit (getUsageSync digits_platform 1000 (Some (Text_json (DocObject
        [(''count'', JNum 7), (''timestamp'', JNum 0), (''limit'', JNum 20)])))))
   \<and> positive (limit (fst (getUsage digits_platform
        (Some \<lparr>queries_used = 20, queries_remaining = 0, reset_time = ''N/A''\<rparr>) 1000
        (Some (Text_json (DocObject
        [(''count'', JNum 7), (''timestamp'', JNum 0), (''limit'', JNum 20)]))))))
   \<and> persisted_limit_positive (snd (getUsage digits_platform
        (Some \<lparr>queries_used = 20, queries_remaining = 0, reset_time = ''N/A''\<rparr>) 1000
        (Some (Text_json (DocObject
        [(''count'', JNum 7), (''timestamp'', JNum 0), (''limit'', JNum 20)])))))
   \<and> persisted_limit_positive (snd (incrementUsage digits_platform
        (Some \<lparr>queries_used = 20, queries_remaining = 0, reset_time = ''N/A''\<rparr>) 1000
        (Some (Text_json (DocObject
        [(''count'', JNum 7), (''timestamp'', JNum 0), (''limit'', JNum 20)])))))"
proof -
  let ?st = "Some (Text_json (DocObject
        [(''count'', JNum 7), (''timestamp'', JNum 0), (''limit'', JNum 20)]))"
  let ?probe = "Some \<lparr>queries_used = 20, queries_remaining = 0, reset_time = ''N/A''\<rparr>"
  have h1: "limit_ok digits_platform ?st"
    by (simp add: limit_ok_def stored_prop_def)
  have h2: "probe_ok ?probe" by simp
  from limit_positive_preserved [OF h1 h2, of 1000] h1 h2 show ?thesis by blast
qed

subsection \<open>The query gateway\<close>




lemma hasReachedLimit_fst:
  "fst (hasReachedLimit P probe now st) =
     js_ge P (count (fst (getUsage P probe now st))) (limit (fst (getUsage P probe now st)))"
  by (cases "getUsage P probe now st") (simp add: hasReachedLimit_def)

lemma hasReachedLimit_snd:
  "snd (hasReachedLimit P probe now st) = snd (getUsage P probe now st)"
  by (cases "getUsage P probe now st") (simp add: hasReachedLimit_def)


lemma formatTimeUntilReset_fst:
  "fst (formatTimeUntilReset P ti st) = format_time (fst (getTimeUntilReset P ti st))"
  by (cases "getTimeUntilReset P ti st") (simp add: formatTimeUntilReset_def)

lemma query_blocked_eq:
  assumes "fst (hasReachedLimit P (fst (check_in I)) (snd (check_in I)) st)"
  shows "query P I message st =
     \<lparr>result = Inl (Error
         (''Rate limit reached. You can make 20 queries every 5 hours. Next reset: ''
           @ fst (formatTimeUntilReset P (blocked_in I)
                   (snd (hasReachedLimit P (fst (check_in I)) (snd (check_in I)) st))))),
       store_at_return = snd (formatTimeUntilReset P (blocked_in I)
                   (snd (hasReachedLimit P (fst (check_in I)) (snd (check_in I)) st))),
       store_settled = snd (formatTimeUntilReset P (blocked_in I)
                   (snd (hasReachedLimit P (fst (check_in I)) (snd (check_in I)) st))),
       requests = [GET_status, GET_status]\<rparr>"
  using assms
  by (simp add: query_def Let_def split_def)




text \<open>
  Claim C9. When the snapshot reconciled by the limit check has \<open>count >= limit\<close>,
  \<open>query\<close> fails with the message that ends in the formatted time until reset, and
  the only requests it has issued are the two status probes (one for the check, one for
  the timer): no \<^verbatim>\<open>POST /api/v1/query\<close>, for any message.
\<close>

theorem query_blocked:
  assumes "js_ge P (count (fst (getUsage P (fst (check_in I)) (snd (check_in I)) st)))
                   (limit (fst (getUsage P (fst (check_in I)) (snd (check_in I)) st)))"
  shows "result (query P I message st) =
           Inl (Error
             (''Rate limit reached. You can make 20 queries every 5 hours. Next reset: ''
               @ format_time (fst (getTimeUntilReset P (blocked_in I)
                    (snd (getUsage P (fst (check_in I)) (snd (check_in I)) st))))))
       \<and> requests (query P I message st) = [GET_status, GET_status]
       \<and> (\<forall>m. POST_query m \<notin> set (requests (query P I message st)))"
proof -
  have "fst (hasReachedLimit P (fst (check_in I)) (snd (check_in I)) st)"
    using assms by (simp add: hasReachedLimit_fst)
  then show ?thesis
    by (simp add: query_blocked_eq hasReachedLimit_snd formatTimeUntilReset_fst)
qed

theorem query_blocked_witness:
  "js_ge digits_platform
       (count (fst (getUsage digits_platform None 1000
          (Some (Text_json (DocObject
             [(''count'', JNum 20), (''timestamp'', JNum 0), (''limit'', JNum 20)]))))))
       (limit (fst (getUsage digits_platform None 1000
          (Some (Text_json (DocObject
             [(''count'', JNum 20), (''timestamp'', JNum 0), (''limit'', JNum 20)]))))))
   \<and> result (query digits_platform
        \<lparr>check_in = (None, 1000),
         blocked_in = ((None, 2000), 2001, 2002),
         post_result = Responded 200 \<lparr>detail = DetailAbsent, rate_limit = None\<rparr>,
         update_in = (None, 1500), update_at = After_return,
         increment_in = (None, 2000),
         summary_in = ((None, 3000), 3001, 3002)\<rparr>
        ''hello''
        (Some (Text_json (DocObject
           [(''count'', JNum 20), (''timestamp'', JNum 0), (''limit'', JNum 20)]))))
     = Inl (Error
        ''Rate limit reached. You can make 20 queries every 5 hours. Next reset: 4h 59m'')
   \<and> requests (query digits_platform
        \<lparr>check_in = (None, 1000),
         blocked_in = ((None, 2000), 2001, 2002),
         post_result = Responded 200 \<lparr>detail = DetailAbsent, rate_limit = None\<rparr>,
         update_in = (None, 1500), update_at = After_return,
         increment_in = (None, 2000),
         summary_in = ((None, 3000), 3001, 3002)\<rparr>
        ''hello''
        (Some (Text_json (DocObject
           [(''count'', JNum 20), (''timestamp'', JNum 0), (''limit'', JNum 20)]))))
     = [GET_status, GET_status]"
proof -
  let ?st = "Some (Text_json (DocObject
           [(''count'', JNum 20), (''timestamp'', JNum 0), (''limit'', JNum 20)]))"
  let ?I = "\<lparr>check_in = (None, 1000),
         blocked_in = ((None, 2000), 2001, 2002),
         post_result = Responded 200 \<lparr>detail = DetailAbsent, rate_limit = None\<rparr>,
         update_in = (None, 1500), update_at = After_return,
         increment_in = (None, 2000),
         summary_in = ((None, 3000), 3001, 3002)\<rparr>"
  have h: "js_ge digits_platform
       (count (fst (getUsage digits_platform (fst (check_in ?I)) (snd (check_in ?I)) ?st)))
       (limit (fst (getUsage digits_platform (fst (check_in ?I)) (snd (check_in ?I)) ?st)))"
    by (simp add: getUsage_offline Let_def getUsageSync_object isNaN_def js_or_def js_ge_def)
  have f: "format_time (fst (getTimeUntilReset digits_platform (blocked_in ?I)
             (snd (getUsage digits_platform (fst (check_in ?I)) (snd (check_in ?I)) ?st))))
           = ''4h 59m''"
    by code_simp
  from query_blocked [OF h, of "''hello''"] f h show ?thesis by simp
qed













end
